theory Spec2Isabelle
  imports Main
begin

section \<open>Strings\<close>

text \<open>Python's \<^verbatim>\<open>str.startswith\<close> and \<^verbatim>\<open>str.endswith\<close>.\<close>

fun startswith :: "string \<Rightarrow> string \<Rightarrow> bool" where
  "startswith s [] = True"
| "startswith [] (p # ps) = False"
| "startswith (c # cs) (p # ps) = (c = p \<and> startswith cs ps)"

definition endswith :: "string \<Rightarrow> string \<Rightarrow> bool" where
  "endswith s p = startswith (rev s) (rev p)"

section \<open>Errors, the storage client and the world\<close>

text \<open>The failures of the filesystem calls: the four that Python names, \<^verbatim>\<open>ELOOP\<close> (too
  many symbolic links met while resolving a path) and any other \<^verbatim>\<open>OSError\<close>.\<close>

datatype os_error =
    FileNotFoundError | FileExistsError | NotADirectoryError | IsADirectoryError
  | SymlinkLoop | OtherOSError

text \<open>
  \<open>ValueError\<close> is what the module itself raises (and what \<^verbatim>\<open>Path.relative_to\<close> raises);
  \<open>ClientError\<close> stands for whatever the storage SDK raises; \<open>OSError\<close> for the
  failures of the local filesystem calls.
\<close>

datatype error = ValueError string | ClientError string | OSError os_error

text \<open>One entry of a listing page (\<^verbatim>\<open>x["Key"]\<close>), and one page
  (\<^verbatim>\<open>result.get("Contents", [])\<close>: the entry may be absent).\<close>

record s3_object =
  Key :: string
  Size :: nat

record page =
  Contents :: "s3_object list option"

text \<open>The body of a \<^verbatim>\<open>get_object\<close> response: the chunks \<^verbatim>\<open>iter_chunks()\<close> yields,
  and the error the stream raises after them, if any.\<close>

record streaming_body =
  chunks :: "string list"
  broken :: "error option"

text \<open>Every invocation of the module-level \<^verbatim>\<open>client\<close> is recorded, \<^verbatim>\<open>close()\<close> included.\<close>

datatype request =
    Paginate string string
  | CopyObject string string string string
  | DeleteObject string string
  | GetObject string string
  | PutObject string string string
  | Close

text \<open>
  The storage client is a stub: each method answers from the requests made so far and
  its arguments, so that any deterministic backend (one that fails on the second call,
  one that stores what it is given) is an instance. \<open>client_paginate\<close> is
  \<^verbatim>\<open>client.get_paginator("list_objects_v2").paginate(Bucket=..., Prefix=...)\<close>, iterated:
  the pages in order, an \<open>Inl\<close> where the iterator raises.
  \<open>client_copy_object (Bucket, Key, CopySource.Bucket, CopySource.Key)\<close>.
\<close>

record client =
  client_paginate :: "request list \<Rightarrow> string \<Rightarrow> string \<Rightarrow> (error + page) list"
  client_copy_object :: "request list \<Rightarrow> string \<Rightarrow> string \<Rightarrow> string \<Rightarrow> string \<Rightarrow> error option"
  client_delete_object :: "request list \<Rightarrow> string \<Rightarrow> string \<Rightarrow> error option"
  client_get_object :: "request list \<Rightarrow> string \<Rightarrow> string \<Rightarrow> error + streaming_body"
  client_put_object :: "request list \<Rightarrow> string \<Rightarrow> string \<Rightarrow> string \<Rightarrow> error option"

text \<open>
  The local filesystem: a tree of directories (entries in \<^verbatim>\<open>scandir\<close> order), regular
  files with their data, symbolic links with their target path, and special files
  (FIFOs, sockets, devices).
\<close>

datatype node = File string | Dir "(string \<times> node) list" | Symlink string | Special

datatype log_record = LogInfo string | LogException string error

text \<open>
  The state the module works on: the client stub and the record of its invocations, the
  filesystem (the tree at \<^verbatim>\<open>/\<close> and the location of the working directory in it) and
  what \<^verbatim>\<open>logger\<close> has been given.
\<close>

record world =
  client :: client
  calls :: "request list"
  fs_root :: node
  cwd :: "string list"
  logged :: "log_record list"

definition invoke :: "world \<Rightarrow> request \<Rightarrow> world" where
  "invoke w r = w\<lparr>calls := calls w @ [r]\<rparr>"

definition close :: "world \<Rightarrow> world" where
  "close w = invoke w Close"

definition logger_exception :: "world \<Rightarrow> string \<Rightarrow> error \<Rightarrow> world" where
  "logger_exception w msg e = w\<lparr>logged := logged w @ [LogException msg e]\<rparr>"

definition logger_info :: "world \<Rightarrow> string \<Rightarrow> world" where
  "logger_info w msg = w\<lparr>logged := logged w @ [LogInfo msg]\<rparr>"

definition quoted :: "string \<Rightarrow> string" where
  "quoted s = CHR 0x27 # s @ [CHR 0x27]"

section \<open>Listing, copying, deleting, moving\<close>

text \<open>The body of the \<^verbatim>\<open>for result in paginator.paginate(...)\<close> loop of
  \<^verbatim>\<open>list_object_keys\<close>: \<open>object_keys\<close> is extended by the keys of each page.\<close>

fun extend_object_keys :: "(error + page) list \<Rightarrow> string list \<Rightarrow> error + string list" where
  "extend_object_keys [] object_keys = Inr object_keys"
| "extend_object_keys (Inl e # rest) object_keys = Inl e"
| "extend_object_keys (Inr result # rest) object_keys =
     (let contents = (case Contents result of None \<Rightarrow> [] | Some cs \<Rightarrow> cs)
      in extend_object_keys rest (object_keys @ map Key contents))"

definition list_object_keys ::
  "world \<Rightarrow> string \<Rightarrow> string \<Rightarrow> bool \<Rightarrow> (error + string list) \<times> world" where
  "list_object_keys w bucket_name prefix exclude_folders =
     (if startswith prefix ''/'' then (Inl (ValueError ''prefix must not start with /''), w)
      else
        let results = client_paginate (client w) (calls w) bucket_name prefix;
            w1 = invoke w (Paginate bucket_name prefix)
        in case extend_object_keys results [] of
             Inl e \<Rightarrow> (Inl e, close (logger_exception w1 ''Failed to list objects:'' e))
           | Inr object_keys \<Rightarrow>
               (Inr (if exclude_folders
                     then filter (\<lambda>x. \<not> endswith x ''/'') object_keys
                     else object_keys),
                close w1))"

definition copy_object ::
  "world \<Rightarrow> string \<Rightarrow> string \<Rightarrow> string \<Rightarrow> string \<Rightarrow> (error + unit) \<times> world" where
  "copy_object w src_bucket_name src_object_key dest_bucket_name dest_object_key =
     (if startswith src_object_key ''/'' \<or> startswith dest_object_key ''/''
      then (Inl (ValueError ''object_key must not start with /''), w)
      else
        let r = client_copy_object (client w) (calls w)
                  dest_bucket_name dest_object_key src_bucket_name src_object_key;
            w1 = invoke w (CopyObject dest_bucket_name dest_object_key
                             src_bucket_name src_object_key)
        in case r of
             Some e \<Rightarrow> (Inl e, close (logger_exception w1 ''Failed to copy object:'' e))
           | None \<Rightarrow> (Inr (), close w1))"

definition delete_object :: "world \<Rightarrow> string \<Rightarrow> string \<Rightarrow> (error + unit) \<times> world" where
  "delete_object w bucket_name object_key =
     (if startswith object_key ''/''
      then (Inl (ValueError ''object_key must not start with /''), w)
      else
        let r = client_delete_object (client w) (calls w) bucket_name object_key;
            w1 = invoke w (DeleteObject bucket_name object_key)
        in case r of
             Some e \<Rightarrow>
               (Inl e,
                close (logger_exception w1
                  (''Failed to delete object '' @ quoted (bucket_name @ ''/'' @ object_key) @ '':'') e))
           | None \<Rightarrow> (Inr (), close w1))"

definition move_object ::
  "world \<Rightarrow> string \<Rightarrow> string \<Rightarrow> string \<Rightarrow> string \<Rightarrow> (error + unit) \<times> world" where
  "move_object w src_bucket_name src_object_key dest_bucket_name dest_object_key =
     (if startswith src_object_key ''/'' \<or> startswith dest_object_key ''/''
      then (Inl (ValueError ''object_key must not start with /''), w)
      else
        case copy_object w src_bucket_name src_object_key dest_bucket_name dest_object_key of
          (Inl e, w1) \<Rightarrow> (Inl e, w1)
        | (Inr u, w1) \<Rightarrow> delete_object w1 src_bucket_name src_object_key)"

section \<open>Paths\<close>

text \<open>\<^verbatim>\<open>s.split("/")\<close> and \<^verbatim>\<open>"/".join(xs)\<close>.\<close>

fun split_sep :: "string \<Rightarrow> string list" where
  "split_sep [] = [[]]"
| "split_sep (c # cs) =
     (if c = CHR ''/'' then [] # split_sep cs
      else (case split_sep cs of [] \<Rightarrow> [[c]] | x # xs \<Rightarrow> (c # x) # xs))"

fun join_sep :: "string list \<Rightarrow> string" where
  "join_sep [] = []"
| "join_sep [x] = x"
| "join_sep (x # y # ys) = x @ ''/'' @ join_sep (y # ys)"

text \<open>
  A \<^verbatim>\<open>pathlib.Path\<close> of the POSIX flavour: whether it has the root \<^verbatim>\<open>/\<close>, and its
  components after the root. Parsing drops empty and \<^verbatim>\<open>.\<close> components and keeps
  \<^verbatim>\<open>..\<close>. (The root \<^verbatim>\<open>//\<close> that POSIX keeps apart is read as \<^verbatim>\<open>/\<close>.)
\<close>

record path =
  is_absolute :: bool
  tail :: "string list"

definition Path :: "string \<Rightarrow> path" where
  "Path s = \<lparr>is_absolute = startswith s ''/'',
             tail = filter (\<lambda>x. x \<noteq> [] \<and> x \<noteq> ''.'') (split_sep s)\<rparr>"

text \<open>\<^verbatim>\<open>str(p)\<close>, which is also \<^verbatim>\<open>os.fspath(p)\<close>.\<close>

definition fspath :: "path \<Rightarrow> string" where
  "fspath p =
     (if is_absolute p then ''/'' @ join_sep (tail p)
      else if tail p = [] then ''.'' else join_sep (tail p))"

text \<open>\<^verbatim>\<open>a / b\<close>: an absolute right operand replaces the left one.\<close>

definition truediv :: "path \<Rightarrow> path \<Rightarrow> path" where
  "truediv a b = (if is_absolute b then b
                  else \<lparr>is_absolute = is_absolute a, tail = tail a @ tail b\<rparr>)"

text \<open>\<^verbatim>\<open>startswith\<close> on lists of components.\<close>

fun leading :: "string list \<Rightarrow> string list \<Rightarrow> bool" where
  "leading [] ys = True"
| "leading (x # xs) [] = False"
| "leading (x # xs) (y # ys) = (x = y \<and> leading xs ys)"

text \<open>
  \<^verbatim>\<open>self.relative_to(other)\<close>: by components, never by characters. It raises
  \<^verbatim>\<open>ValueError\<close> when one path has a root and the other has none, and when the components
  of \<open>other\<close> are not the first components of \<open>self\<close>.
\<close>

definition relative_to :: "path \<Rightarrow> path \<Rightarrow> error + path" where
  "relative_to self other =
     (if is_absolute self = is_absolute other \<and> leading (tail other) (tail self)
      then Inr \<lparr>is_absolute = False, tail = drop (length (tail other)) (tail self)\<rparr>
      else Inl (ValueError ''is not in the subpath of''))"

text \<open>\<^verbatim>\<open>os.path.dirname\<close>: everything up to the last \<^verbatim>\<open>/\<close>, without trailing slashes
  unless it is slashes only.\<close>

definition dirname :: "string \<Rightarrow> string" where
  "dirname p =
     (let head = rev (dropWhile (\<lambda>c. c \<noteq> CHR ''/'') (rev p))
      in if head \<noteq> [] \<and> \<not> list_all (\<lambda>c. c = CHR ''/'') head
         then rev (dropWhile (\<lambda>c. c = CHR ''/'') (rev head))
         else head)"

section \<open>The local filesystem\<close>

text \<open>The node at a location: the names from the root of the tree down, through
  directories only (a symbolic link has no entries of its own).\<close>

fun node_at :: "node \<Rightarrow> string list \<Rightarrow> node option"
  and entry_at :: "(string \<times> node) list \<Rightarrow> string \<Rightarrow> string list \<Rightarrow> node option" where
  "node_at n [] = Some n"
| "node_at (Dir es) (c # cs) = entry_at es c cs"
| "node_at (File d) (c # cs) = None"
| "node_at (Symlink t) (c # cs) = None"
| "node_at Special (c # cs) = None"
| "entry_at [] c cs = None"
| "entry_at ((k, n) # es) c cs = (if k = c then node_at n cs else entry_at es c cs)"

text \<open>Storing a node at a location whose parent is a directory: an existing entry is
  replaced in place, a new one comes last.\<close>

fun put_node :: "node \<Rightarrow> string list \<Rightarrow> node \<Rightarrow> node"
  and put_entry :: "(string \<times> node) list \<Rightarrow> string \<Rightarrow> string list \<Rightarrow> node \<Rightarrow> (string \<times> node) list" where
  "put_node t [] n = n"
| "put_node (Dir es) (c # cs) n = Dir (put_entry es c cs n)"
| "put_node (File d) (c # cs) n = File d"
| "put_node (Symlink t) (c # cs) n = Symlink t"
| "put_node Special (c # cs) n = Special"
| "put_entry [] c cs n = (if cs = [] then [(c, n)] else [])"
| "put_entry ((k, t) # es) c cs n =
     (if k = c then (k, put_node t cs n) # es else (k, t) # put_entry es c cs n)"

text \<open>One step of path resolution from a directory.\<close>

definition step :: "string list \<Rightarrow> string \<Rightarrow> string list" where
  "step loc c = (if c = ''..'' then butlast loc else if c = ''.'' then loc else loc @ [c])"

definition components :: "string \<Rightarrow> string list" where
  "components name = filter (\<lambda>x. x \<noteq> []) (split_sep name)"

text \<open>The number of symbolic links one path resolution may follow (Linux: 40).\<close>

definition max_links :: nat where
  "max_links = 40"

text \<open>
  Resolving components from a directory at \<open>loc\<close>, as the kernel does: every component
  is looked up in a directory; a symbolic link met on the way is replaced by the
  components of its target, taken from the root when the target is absolute and from the
  directory of the link otherwise; \<open>fuel\<close> counts the links that may still be followed.
  A link in the last component is followed when \<open>follow\<close> holds (\<^verbatim>\<open>stat\<close>,
  \<^verbatim>\<open>open\<close>) and is itself the result otherwise (\<^verbatim>\<open>lstat\<close>). The result is the location
  the path names, which need not exist.
\<close>

fun walk :: "node \<Rightarrow> nat \<Rightarrow> bool \<Rightarrow> string list \<Rightarrow> string list \<Rightarrow> os_error + string list" where
  "walk r fuel follow loc [] = Inr loc"
| "walk r fuel follow loc (c # cs) =
     (case node_at r loc of
        None \<Rightarrow> Inl FileNotFoundError
      | Some (Dir es) \<Rightarrow>
          (case node_at r (step loc c) of
             Some (Symlink target) \<Rightarrow>
               (if cs = [] \<and> \<not> follow then Inr (step loc c)
                else if fuel = 0 then Inl SymlinkLoop
                else if target = [] then Inl FileNotFoundError
                else walk r (fuel - 1) follow
                       (if startswith target ''/'' then [] else loc) (components target @ cs))
           | _ \<Rightarrow> walk r fuel follow (step loc c) cs)
      | Some _ \<Rightarrow> Inl NotADirectoryError)"

definition start :: "world \<Rightarrow> string \<Rightarrow> string list" where
  "start w name = (if startswith name ''/'' then [] else cwd w)"

definition resolve :: "world \<Rightarrow> bool \<Rightarrow> string \<Rightarrow> os_error + string list" where
  "resolve w follow name =
     (if name = [] then Inl FileNotFoundError
      else walk (fs_root w) max_links follow (start w name) (components name))"

text \<open>\<^verbatim>\<open>p.is_file()\<close>: it follows symbolic links, and is false when the path does not
  resolve or resolves to anything but a regular file.\<close>

definition is_file :: "world \<Rightarrow> path \<Rightarrow> bool" where
  "is_file w p =
     (case resolve w True (fspath p) of
        Inl e \<Rightarrow> False
      | Inr loc \<Rightarrow> (case node_at (fs_root w) loc of Some (File d) \<Rightarrow> True | _ \<Rightarrow> False))"

text \<open>\<^verbatim>\<open>open(name, "rb").read()\<close>. What reading a special file gives depends on the
  device and is left out: the model answers with an error.\<close>

definition read_file :: "world \<Rightarrow> string \<Rightarrow> os_error + string" where
  "read_file w name =
     (case resolve w True name of
        Inl e \<Rightarrow> Inl e
      | Inr loc \<Rightarrow>
          (case node_at (fs_root w) loc of
             None \<Rightarrow> Inl FileNotFoundError
           | Some (Dir es) \<Rightarrow> Inl IsADirectoryError
           | Some (File d) \<Rightarrow> Inr d
           | Some _ \<Rightarrow> Inl OtherOSError))"

text \<open>
  \<^verbatim>\<open>open(name, "wb")\<close> followed by \<^verbatim>\<open>f.write(chunk)\<close> for each chunk and the close at
  the end of the \<^verbatim>\<open>with\<close> block: the file the name resolves to (through a symbolic link,
  if it is one) is created or truncated, then holds the chunks written. Writing to a
  special file is left out, as reading is.
\<close>

definition write_file :: "world \<Rightarrow> string \<Rightarrow> string list \<Rightarrow> os_error + world" where
  "write_file w name written =
     (case resolve w True name of
        Inl e \<Rightarrow> Inl e
      | Inr loc \<Rightarrow>
          (case node_at (fs_root w) loc of
             None \<Rightarrow> Inr (w\<lparr>fs_root := put_node (fs_root w) loc (File (foldl (@) [] written))\<rparr>)
           | Some (File d) \<Rightarrow>
               Inr (w\<lparr>fs_root := put_node (fs_root w) loc (File (foldl (@) [] written))\<rparr>)
           | Some (Dir es) \<Rightarrow> Inl IsADirectoryError
           | Some _ \<Rightarrow> Inl OtherOSError))"

text \<open>
  \<^verbatim>\<open>os.makedirs(name, exist_ok=True)\<close>, from a directory at \<open>loc\<close>: a component that
  exists as a directory, or as a symbolic link to one, is entered; a missing one is
  created; anything else in the way is \<^verbatim>\<open>FileExistsError\<close> when it is the last
  component and, before, the error of going through it. The tree is returned also with
  an error: the directories made before the failure stay.
\<close>

fun makedirs_from :: "node \<Rightarrow> string list \<Rightarrow> string list \<Rightarrow> os_error option \<times> node" where
  "makedirs_from r loc [] = (None, r)"
| "makedirs_from r loc (c # cs) =
     (case node_at r (step loc c) of
        None \<Rightarrow> makedirs_from (put_node r (step loc c) (Dir [])) (step loc c) cs
      | Some (Dir es) \<Rightarrow> makedirs_from r (step loc c) cs
      | Some (Symlink target) \<Rightarrow>
          (case walk r max_links True loc [c] of
             Inl e \<Rightarrow> (Some (if cs = [] then FileExistsError else e), r)
           | Inr l \<Rightarrow>
               (case node_at r l of
                  Some (Dir es) \<Rightarrow> makedirs_from r l cs
                | None \<Rightarrow> (Some (if cs = [] then FileExistsError else FileNotFoundError), r)
                | Some _ \<Rightarrow> (Some (if cs = [] then FileExistsError else NotADirectoryError), r)))
      | Some _ \<Rightarrow> (Some (if cs = [] then FileExistsError else NotADirectoryError), r))"

text \<open>The empty name is \<^verbatim>\<open>FileNotFoundError\<close>: \<^verbatim>\<open>mkdir("")\<close> fails and \<^verbatim>\<open>""\<close> is no
  directory.\<close>

definition os_makedirs :: "world \<Rightarrow> string \<Rightarrow> os_error option \<times> world" where
  "os_makedirs w name =
     (if name = [] then (Some FileNotFoundError, w)
      else
        (case node_at (fs_root w) (start w name) of
           None \<Rightarrow> (Some FileNotFoundError, w)
         | Some (Dir es) \<Rightarrow>
             (case makedirs_from (fs_root w) (start w name) (components name) of
                (e, r) \<Rightarrow> (e, w\<lparr>fs_root := r\<rparr>))
         | Some _ \<Rightarrow> (Some NotADirectoryError, w)))"

text \<open>
  \<^verbatim>\<open>p.rglob("*")\<close>: nothing unless \<open>p\<close> is a directory (or a link to one); otherwise,
  for every directory below \<open>p\<close> (\<open>p\<close> first, then the subdirectories in pre-order;
  a symbolic link to a directory is not entered), each of its entries, whatever its
  kind, as \<open>p\<close> extended by the names down to the entry.
\<close>

fun iterate_directories :: "node \<Rightarrow> string list list"
  and iterate_entries :: "(string \<times> node) list \<Rightarrow> string list list" where
  "iterate_directories (Dir es) = [] # iterate_entries es"
| "iterate_directories (File d) = []"
| "iterate_directories (Symlink t) = []"
| "iterate_directories Special = []"
| "iterate_entries [] = []"
| "iterate_entries ((k, n) # es) = map ((#) k) (iterate_directories n) @ iterate_entries es"

definition scandir :: "node \<Rightarrow> string list \<Rightarrow> string list" where
  "scandir d loc = (case node_at d loc of Some (Dir es) \<Rightarrow> map fst es | _ \<Rightarrow> [])"

definition select_from :: "node \<Rightarrow> string list list" where
  "select_from d =
     concat (map (\<lambda>loc. map (\<lambda>name. loc @ [name]) (scandir d loc)) (iterate_directories d))"

definition make_child :: "path \<Rightarrow> string list \<Rightarrow> path" where
  "make_child p names = p\<lparr>tail := tail p @ names\<rparr>"

definition rglob :: "world \<Rightarrow> path \<Rightarrow> path list" where
  "rglob w p =
     (case resolve w True (fspath p) of
        Inl e \<Rightarrow> []
      | Inr loc \<Rightarrow>
          (case node_at (fs_root w) loc of
             Some (Dir es) \<Rightarrow> map (make_child p) (select_from (Dir es))
           | _ \<Rightarrow> []))"

section \<open>Downloading\<close>

text \<open>
  The statements of the \<^verbatim>\<open>try\<close> block of \<^verbatim>\<open>download_object\<close> that follow the
  \<^verbatim>\<open>get_object\<close> call: nothing local is touched when the call has raised; otherwise
  \<^verbatim>\<open>os.makedirs(os.path.dirname(local_path), exist_ok=True)\<close>, then the file is opened and
  the chunks are written; an error of \<^verbatim>\<open>makedirs\<close> leaves the directories it had made, an
  error of the stream leaves the file with what was written.
\<close>

definition store_response ::
  "world \<Rightarrow> error + streaming_body \<Rightarrow> path \<Rightarrow> (error + unit) \<times> world" where
  "store_response w response local_path =
     (case response of
        Inl e \<Rightarrow> (Inl e, w)
      | Inr body \<Rightarrow>
          (case os_makedirs w (dirname (fspath local_path)) of
             (Some e, w1) \<Rightarrow> (Inl (OSError e), w1)
           | (None, w1) \<Rightarrow>
               (case write_file w1 (fspath local_path) (chunks body) of
                  Inl e \<Rightarrow> (Inl (OSError e), w1)
                | Inr w2 \<Rightarrow>
                    (case broken body of
                       Some e \<Rightarrow> (Inl e, w2)
                     | None \<Rightarrow> (Inr (), w2)))))"

definition download_object ::
  "world \<Rightarrow> string \<Rightarrow> string \<Rightarrow> path \<Rightarrow> (error + unit) \<times> world" where
  "download_object w bucket_name object_key local_path =
     (if startswith object_key ''/''
      then (Inl (ValueError ''object_key must not start with /''), w)
      else
        let w0 = logger_info w
                   (''Downloading object '' @ quoted (bucket_name @ ''/'' @ object_key)
                    @ '' to '' @ quoted (fspath local_path));
            response = client_get_object (client w0) (calls w0) bucket_name object_key;
            w1 = invoke w0 (GetObject bucket_name object_key)
        in case store_response w1 response local_path of
             (Inl e, w2) \<Rightarrow>
               (Inl e,
                close (logger_exception w2
                  (''Failed to download a object '' @ quoted (bucket_name @ ''/'' @ object_key) @ '':'') e))
           | (Inr u, w2) \<Rightarrow> (Inr (), close w2))"

text \<open>The \<^verbatim>\<open>for object_key in object_keys\<close> loop of \<^verbatim>\<open>download_folder\<close>.\<close>

fun download_keys ::
  "world \<Rightarrow> string \<Rightarrow> string \<Rightarrow> path \<Rightarrow> string list \<Rightarrow> (error + unit) \<times> world" where
  "download_keys w bucket_name prefix local_path [] = (Inr (), w)"
| "download_keys w bucket_name prefix local_path (object_key # object_keys) =
     (if endswith object_key ''/''
      then download_keys w bucket_name prefix local_path object_keys
      else
        case relative_to (Path object_key) (Path prefix) of
          Inl e \<Rightarrow> (Inl e, w)
        | Inr relative_object_key \<Rightarrow>
            (case download_object w bucket_name object_key
                    (truediv local_path relative_object_key) of
               (Inl e, w1) \<Rightarrow> (Inl e, w1)
             | (Inr u, w1) \<Rightarrow> download_keys w1 bucket_name prefix local_path object_keys))"

definition download_folder ::
  "world \<Rightarrow> string \<Rightarrow> string \<Rightarrow> path \<Rightarrow> (error + unit) \<times> world" where
  "download_folder w bucket_name prefix local_path =
     (if startswith prefix ''/'' then (Inl (ValueError ''prefix must not start with /''), w)
      else
        case list_object_keys w bucket_name prefix True of
          (Inl e, w1) \<Rightarrow> (Inl e, w1)
        | (Inr object_keys, w1) \<Rightarrow> download_keys w1 bucket_name prefix local_path object_keys)"

section \<open>Uploading\<close>

definition put_object ::
  "world \<Rightarrow> string \<Rightarrow> string \<Rightarrow> path \<Rightarrow> (error + unit) \<times> world" where
  "put_object w bucket_name object_key local_path =
     (if startswith object_key ''/''
      then (Inl (ValueError ''object_key must not start with /''), w)
      else
        case (case read_file w (fspath local_path) of
                Inl e \<Rightarrow> (Inl (OSError e), w)
              | Inr file_data \<Rightarrow>
                  (case client_put_object (client w) (calls w) bucket_name object_key file_data of
                     Some e \<Rightarrow> (Inl e, invoke w (PutObject bucket_name object_key file_data))
                   | None \<Rightarrow> (Inr (), invoke w (PutObject bucket_name object_key file_data)))) of
          (Inl e, w1) \<Rightarrow>
            (Inl e,
             close (logger_exception w1
               (''Failed to upload object '' @ quoted (bucket_name @ ''/'' @ object_key) @ '':'') e))
        | (Inr u, w1) \<Rightarrow> (Inr (), close w1))"

text \<open>
  The \<^verbatim>\<open>for local_file_path in local_path.rglob("*")\<close> loop of \<^verbatim>\<open>put_folder\<close>. The
  generator is taken as the list of what it yields: no step of the loop changes the
  filesystem.
\<close>

fun put_files ::
  "world \<Rightarrow> string \<Rightarrow> string \<Rightarrow> path \<Rightarrow> path list \<Rightarrow> (error + unit) \<times> world" where
  "put_files w bucket_name prefix local_path [] = (Inr (), w)"
| "put_files w bucket_name prefix local_path (local_file_path # rest) =
     (if \<not> is_file w local_file_path
      then put_files w bucket_name prefix local_path rest
      else
        case relative_to local_file_path local_path of
          Inl e \<Rightarrow> (Inl e, w)
        | Inr relative_path \<Rightarrow>
            (case put_object w bucket_name
                    (fspath (truediv (Path prefix) relative_path)) local_file_path of
               (Inl e, w1) \<Rightarrow> (Inl e, w1)
             | (Inr u, w1) \<Rightarrow> put_files w1 bucket_name prefix local_path rest))"

definition put_folder ::
  "world \<Rightarrow> string \<Rightarrow> string \<Rightarrow> path \<Rightarrow> (error + unit) \<times> world" where
  "put_folder w bucket_name prefix local_path =
     (if startswith prefix ''/'' then (Inl (ValueError ''prefix must not start with /''), w)
      else put_files w bucket_name prefix local_path (rglob w local_path))"

section \<open>The asynchronous variants\<close>

text \<open>
  Modelled from the spec: \<^verbatim>\<open>z3.asyncable\<close> is imported by \<^verbatim>\<open>s3_client.py\<close> and is not
  among the sources. The specification says of it that an asynchronous variant is the
  synchronous operation executed on a background worker and awaited, the caller resuming
  with the result or with the error: for one call on its own, the worker runs the function
  on the world and hands back what it returned. The first argument is the executor
  (\<^verbatim>\<open>None\<close>: the default one).
\<close>

definition run_in_executor :: "unit option \<Rightarrow> (world \<Rightarrow> 'a \<times> world) \<Rightarrow> world \<Rightarrow> 'a \<times> world" where
  "run_in_executor executor func w = func w"

definition alist_object_keys ::
  "world \<Rightarrow> string \<Rightarrow> string \<Rightarrow> bool \<Rightarrow> (error + string list) \<times> world" where
  "alist_object_keys w bucket_name prefix exclude_folders =
     run_in_executor None (\<lambda>w. list_object_keys w bucket_name prefix exclude_folders) w"

text \<open>\<^verbatim>\<open>acopy_object\<close> awaits without \<^verbatim>\<open>return\<close>: what it gives back is \<^verbatim>\<open>None\<close>
  whatever the worker returned.\<close>

definition acopy_object ::
  "world \<Rightarrow> string \<Rightarrow> string \<Rightarrow> string \<Rightarrow> string \<Rightarrow> (error + unit) \<times> world" where
  "acopy_object w src_bucket_name src_object_key dest_bucket_name dest_object_key =
     (case run_in_executor None
             (\<lambda>w. copy_object w src_bucket_name src_object_key
                     dest_bucket_name dest_object_key) w of
        (Inl e, w1) \<Rightarrow> (Inl e, w1)
      | (Inr u, w1) \<Rightarrow> (Inr (), w1))"

definition adelete_object :: "world \<Rightarrow> string \<Rightarrow> string \<Rightarrow> (error + unit) \<times> world" where
  "adelete_object w bucket_name object_key =
     run_in_executor None (\<lambda>w. delete_object w bucket_name object_key) w"

definition amove_object ::
  "world \<Rightarrow> string \<Rightarrow> string \<Rightarrow> string \<Rightarrow> string \<Rightarrow> (error + unit) \<times> world" where
  "amove_object w src_bucket_name src_object_key dest_bucket_name dest_object_key =
     run_in_executor None
       (\<lambda>w. move_object w src_bucket_name src_object_key dest_bucket_name dest_object_key) w"

definition adownload_object ::
  "world \<Rightarrow> string \<Rightarrow> string \<Rightarrow> path \<Rightarrow> (error + unit) \<times> world" where
  "adownload_object w bucket_name object_key local_path =
     run_in_executor None (\<lambda>w. download_object w bucket_name object_key local_path) w"

definition adownload_folder ::
  "world \<Rightarrow> string \<Rightarrow> string \<Rightarrow> path \<Rightarrow> (error + unit) \<times> world" where
  "adownload_folder w bucket_name prefix local_path =
     run_in_executor None (\<lambda>w. download_folder w bucket_name prefix local_path) w"

definition aput_object ::
  "world \<Rightarrow> string \<Rightarrow> string \<Rightarrow> path \<Rightarrow> (error + unit) \<times> world" where
  "aput_object w bucket_name object_key local_path =
     run_in_executor None (\<lambda>w. put_object w bucket_name object_key local_path) w"

definition aput_folder ::
  "world \<Rightarrow> string \<Rightarrow> string \<Rightarrow> path \<Rightarrow> (error + unit) \<times> world" where
  "aput_folder w bucket_name prefix local_path =
     run_in_executor None (\<lambda>w. put_folder w bucket_name prefix local_path) w"

section \<open>Notions of the specification and stubs for the examples\<close>

text \<open>The keys one page of a listing carries.\<close>

definition page_keys :: "page \<Rightarrow> string list" where
  "page_keys result = map Key (case Contents result of None \<Rightarrow> [] | Some cs \<Rightarrow> cs)"

definition page_of :: "string list \<Rightarrow> page" where
  "page_of ks = \<lparr>Contents = Some (map (\<lambda>k. \<lparr>Key = k, Size = 0\<rparr>) ks)\<rparr>"

text \<open>A stub that lists the given pages, accepts every copy, delete and put, and
  serves for every key a body of three chunks.\<close>

definition stub :: "(error + page) list \<Rightarrow> client" where
  "stub ps =
     \<lparr>client_paginate = (\<lambda>h b p. ps),
      client_copy_object = (\<lambda>h db dk sb sk. None),
      client_delete_object = (\<lambda>h b k. None),
      client_get_object = (\<lambda>h b k. Inr \<lparr>chunks = [''<'', k, ''>''], broken = None\<rparr>),
      client_put_object = (\<lambda>h b k d. None)\<rparr>"

text \<open>A world with nothing recorded yet, whose working directory is \<^verbatim>\<open>/home\<close>.\<close>

definition world_of :: "client \<Rightarrow> node \<Rightarrow> world" where
  "world_of c r = \<lparr>client = c, calls = [], fs_root = r, cwd = [''home''], logged = []\<rparr>"

definition three_pages :: "(error + page) list" where
  "three_pages =
     map Inr [page_of [''a/1'', ''a/''], \<lparr>Contents = None\<rparr>, page_of [''a/sub/'', ''a/sub/2'']]"

definition denied :: error where
  "denied = ClientError ''AccessDenied''"

text \<open>A world whose bucket lists the given keys on one page; \<^verbatim>\<open>/home\<close> is empty.\<close>

definition folder_world :: "string list \<Rightarrow> world" where
  "folder_world ks = world_of (stub [Inr (page_of ks)]) (Dir [(''home'', Dir [])])"

text \<open>A world with the tree \<^verbatim>\<open>root/a.txt\<close>, \<^verbatim>\<open>root/sub/b.txt\<close> in the working directory.\<close>

definition tree_world :: world where
  "tree_world = world_of (stub [])
     (Dir [(''home'',
        Dir [(''root'', Dir [(''a.txt'', File ''A''), (''sub'', Dir [(''b.txt'', File ''B'')])])])])"


text \<open>
  The specification's words for \<^verbatim>\<open>download_folder\<close>: the keys that remain of a listing
  once the folder markers are left out; the destination of a key,
  \<^verbatim>\<open>local_path / (key relative to prefix)\<close>; and the downloads of a list of keys to their
  destinations, one after the other, up to the first error.
\<close>

definition remaining_keys :: "page list \<Rightarrow> string list" where
  "remaining_keys pages = filter (\<lambda>k. \<not> endswith k ''/'') (concat (map page_keys pages))"

definition destination :: "string \<Rightarrow> path \<Rightarrow> string \<Rightarrow> error + path" where
  "destination prefix local_path key =
     (case relative_to (Path key) (Path prefix) of
        Inl e \<Rightarrow> Inl e
      | Inr rel \<Rightarrow> Inr (truediv local_path rel))"

fun download_each ::
  "world \<Rightarrow> string \<Rightarrow> (string \<times> (error + path)) list \<Rightarrow> (error + unit) \<times> world" where
  "download_each w b [] = (Inr (), w)"
| "download_each w b ((key, dest) # rest) =
     (case dest of
        Inl e \<Rightarrow> (Inl e, w)
      | Inr d \<Rightarrow>
          (case download_object w b key d of
             (Inl e, w1) \<Rightarrow> (Inl e, w1)
           | (Inr u, w1) \<Rightarrow> download_each w1 b rest))"






definition file_data :: "world \<Rightarrow> path \<Rightarrow> string" where
  "file_data w p = (case read_file w (fspath p) of Inl e \<Rightarrow> [] | Inr data \<Rightarrow> data)"


section \<open>Properties\<close>

subsection \<open>What the state updates change\<close>

lemma invoke_simps [simp]:
  "calls (invoke w r) = calls w @ [r]" "client (invoke w r) = client w"
  "fs_root (invoke w r) = fs_root w" "cwd (invoke w r) = cwd w" "logged (invoke w r) = logged w"
  by (simp_all add: invoke_def)

lemma close_simps [simp]:
  "calls (close w) = calls w @ [Close]" "client (close w) = client w"
  "fs_root (close w) = fs_root w" "cwd (close w) = cwd w" "logged (close w) = logged w"
  by (simp_all add: close_def)

lemma logger_exception_simps [simp]:
  "calls (logger_exception w m e) = calls w" "client (logger_exception w m e) = client w"
  "fs_root (logger_exception w m e) = fs_root w" "cwd (logger_exception w m e) = cwd w"
  "logged (logger_exception w m e) = logged w @ [LogException m e]"
  by (simp_all add: logger_exception_def)

lemma logger_info_simps [simp]:
  "calls (logger_info w m) = calls w" "client (logger_info w m) = client w"
  "fs_root (logger_info w m) = fs_root w" "cwd (logger_info w m) = cwd w"
  "logged (logger_info w m) = logged w @ [LogInfo m]"
  by (simp_all add: logger_info_def)

subsection \<open>Validation\<close>

text \<open>
  Claim C1. A prefix or object key that starts with \<^verbatim>\<open>/\<close> makes every operation that
  takes it (for copy and move: in either position) raise \<^verbatim>\<open>ValueError\<close>, the module's
  invalid-argument error, and leave the world as it was: the record of client invocations
  is the one before the call, so the backend has seen nothing, not even a \<^verbatim>\<open>close\<close>.
\<close>

theorem invalid_argument_before_any_call:
  assumes "startswith p ''/''"
  shows "list_object_keys w b p ef = (Inl (ValueError ''prefix must not start with /''), w)
    \<and> copy_object w sb p db dk = (Inl (ValueError ''object_key must not start with /''), w)
    \<and> copy_object w sb sk db p = (Inl (ValueError ''object_key must not start with /''), w)
    \<and> delete_object w b p = (Inl (ValueError ''object_key must not start with /''), w)
    \<and> move_object w sb p db dk = (Inl (ValueError ''object_key must not start with /''), w)
    \<and> move_object w sb sk db p = (Inl (ValueError ''object_key must not start with /''), w)
    \<and> download_object w b p lp = (Inl (ValueError ''object_key must not start with /''), w)
    \<and> download_folder w b p lp = (Inl (ValueError ''prefix must not start with /''), w)
    \<and> put_object w b p lp = (Inl (ValueError ''object_key must not start with /''), w)
    \<and> put_folder w b p lp = (Inl (ValueError ''prefix must not start with /''), w)"
  using assms
  by (simp add: list_object_keys_def copy_object_def delete_object_def move_object_def
      download_object_def download_folder_def put_object_def put_folder_def)

theorem invalid_argument_before_any_call_witness:
  "startswith ''/data'' ''/''
   \<and> calls (snd (list_object_keys (world_of (stub three_pages) (Dir [])) ''b'' ''/data'' True)) = []
   \<and> calls (snd (move_object (world_of (stub three_pages) (Dir [])) ''b'' ''k'' ''c'' ''/data'')) = []
   \<and> fst (put_folder (world_of (stub three_pages) (Dir [])) ''b'' ''/data'' (Path ''up''))
       = Inl (ValueError ''prefix must not start with /'')"
proof -
  have h: "startswith ''/data'' ''/''" by simp
  show ?thesis
    using h invalid_argument_before_any_call [OF h, of "world_of (stub three_pages) (Dir [])"
        "''b''" True "''b''" "''c''" "''k''" "''k''" "Path ''up''"]
    by (simp add: world_of_def)
qed

subsection \<open>Listing\<close>

lemma extend_object_keys_pages:
  "extend_object_keys (map Inr pages) acc = Inr (acc @ concat (map page_keys pages))"
  by (induction pages arbitrary: acc) (simp_all add: page_keys_def)

text \<open>
  Claim C2. When the paginator yields the pages \<open>pages\<close>, however many, the keys
  \<^verbatim>\<open>list_object_keys\<close> enumerates are those of every page, page after page in page
  order: with \<^verbatim>\<open>exclude_folders\<close> off the result is that whole list, and with it on the
  result is that list without the keys ending in \<^verbatim>\<open>/\<close>. Nothing stops at the first page.
\<close>

theorem list_object_keys_all_pages:
  assumes "\<not> startswith prefix ''/''"
    and "client_paginate (client w) (calls w) bucket_name prefix = map Inr pages"
  shows "fst (list_object_keys w bucket_name prefix False) = Inr (concat (map page_keys pages))
    \<and> fst (list_object_keys w bucket_name prefix True) =
        Inr (filter (\<lambda>x. \<not> endswith x ''/'') (concat (map page_keys pages)))"
  using assms by (simp add: list_object_keys_def extend_object_keys_pages)

theorem list_object_keys_all_pages_witness:
  "\<not> startswith ''a/'' ''/''
   \<and> fst (list_object_keys (world_of (stub three_pages) (Dir [])) ''b'' ''a/'' False)
       = Inr [''a/1'', ''a/'', ''a/sub/'', ''a/sub/2'']
   \<and> fst (list_object_keys (world_of (stub three_pages) (Dir [])) ''b'' ''a/'' True)
       = Inr [''a/1'', ''a/sub/2'']"
proof -
  have h1: "\<not> startswith ''a/'' ''/''" by simp
  have h2: "client_paginate (client (world_of (stub three_pages) (Dir [])))
              (calls (world_of (stub three_pages) (Dir []))) ''b'' ''a/''
            = map Inr [page_of [''a/1'', ''a/''], \<lparr>Contents = None\<rparr>, page_of [''a/sub/'', ''a/sub/2'']]"
    by (simp add: world_of_def stub_def three_pages_def)
  show ?thesis
    using h1 list_object_keys_all_pages [OF h1 h2]
    by (simp add: page_keys_def page_of_def endswith_def)
qed

lemma endswith_sep_last: "endswith k ''/'' \<longleftrightarrow> k \<noteq> [] \<and> last k = CHR ''/''"
proof (cases k rule: rev_cases)
  case Nil
  then show ?thesis by (simp add: endswith_def)
next
  case (snoc ys y)
  then show ?thesis by (simp add: endswith_def)
qed

text \<open>
  Claim C8. On the same backend data, whatever the paginator yields as pages:
  \<^verbatim>\<open>list_object_keys\<close> with \<^verbatim>\<open>exclude_folders\<close> off returns every enumerated key, those
  ending in \<^verbatim>\<open>/\<close> included, and with \<^verbatim>\<open>exclude_folders\<close> on returns the same enumeration
  with exactly the keys whose last character is \<^verbatim>\<open>/\<close> taken out, the others in their
  order. The filter works on the finished enumeration: in every case, an error included,
  the result with the flag on is the filtered result with the flag off, and the two calls
  have the same effects.
\<close>

theorem exclude_folders_filters_enumeration:
  "(fst (list_object_keys w bucket_name prefix True) =
      map_sum id (filter (\<lambda>x. \<not> endswith x ''/''))
        (fst (list_object_keys w bucket_name prefix False))
    \<and> snd (list_object_keys w bucket_name prefix True) =
        snd (list_object_keys w bucket_name prefix False))
   \<and> (\<not> startswith prefix ''/''
        \<and> client_paginate (client w) (calls w) bucket_name prefix = map Inr pages
      \<longrightarrow> fst (list_object_keys w bucket_name prefix False) =
            Inr (concat (map page_keys pages))
          \<and> fst (list_object_keys w bucket_name prefix True) =
            Inr (filter (\<lambda>k. k = [] \<or> last k \<noteq> CHR ''/'') (concat (map page_keys pages))))"
proof -
  have rel: "fst (list_object_keys w bucket_name prefix True) =
      map_sum id (filter (\<lambda>x. \<not> endswith x ''/''))
        (fst (list_object_keys w bucket_name prefix False))
    \<and> snd (list_object_keys w bucket_name prefix True) =
        snd (list_object_keys w bucket_name prefix False)"
    by (simp add: list_object_keys_def Let_def split: sum.splits)
  have f: "(\<lambda>x. \<not> endswith x ''/'') = (\<lambda>k. k = [] \<or> last k \<noteq> CHR ''/'')"
    by (auto simp: endswith_sep_last)
  have "fst (list_object_keys w bucket_name prefix False) = Inr (concat (map page_keys pages))
      \<and> fst (list_object_keys w bucket_name prefix True) =
          Inr (filter (\<lambda>k. k = [] \<or> last k \<noteq> CHR ''/'') (concat (map page_keys pages)))"
    if "\<not> startswith prefix ''/''"
      "client_paginate (client w) (calls w) bucket_name prefix = map Inr pages"
    using that by (simp add: list_object_keys_def extend_object_keys_pages f)
  with rel show ?thesis by blast
qed

theorem exclude_folders_filters_enumeration_witness:
  "\<not> startswith ''a/'' ''/''
   \<and> fst (list_object_keys (world_of (stub three_pages) (Dir [])) ''b'' ''a/'' False)
     = Inr [''a/1'', ''a/'', ''a/sub/'', ''a/sub/2'']
   \<and> fst (list_object_keys (world_of (stub three_pages) (Dir [])) ''b'' ''a/'' True)
     = Inr [''a/1'', ''a/sub/2'']"
proof -
  let ?w = "world_of (stub three_pages) (Dir [])"
  have h: "\<not> startswith ''a/'' ''/''
      \<and> client_paginate (client ?w) (calls ?w) ''b'' ''a/''
          = map Inr [page_of [''a/1'', ''a/''], \<lparr>Contents = None\<rparr>, page_of [''a/sub/'', ''a/sub/2'']]"
    by (simp add: world_of_def stub_def three_pages_def)
  show ?thesis
    using mp [OF exclude_folders_filters_enumeration [THEN conjunct2] h]
    by (simp add: page_keys_def page_of_def)
qed

subsection \<open>Moving\<close>

text \<open>
  Claim C3. \<^verbatim>\<open>move_object\<close> is \<^verbatim>\<open>copy_object\<close> followed, when the copy has succeeded,
  by \<^verbatim>\<open>delete_object\<close> of the source, and nothing else. When the client accepts the copy
  and refuses the delete with \<open>e\<close>, the caller gets \<open>e\<close>, and the client has been asked
  for exactly one copy and then one delete of the source (each followed by its
  \<^verbatim>\<open>close\<close>): no request undoes the copy.
\<close>

theorem move_object_copy_then_delete:
  "move_object w sb sk db dk =
     (case copy_object w sb sk db dk of
        (Inl e, w1) \<Rightarrow> (Inl e, w1)
      | (Inr u, w1) \<Rightarrow> delete_object w1 sb sk)
   \<and> (\<not> startswith sk ''/'' \<and> \<not> startswith dk ''/''
        \<and> client_copy_object (client w) (calls w) db dk sb sk = None
        \<and> client_delete_object (client w) (calls w @ [CopyObject db dk sb sk, Close]) sb sk = Some e
      \<longrightarrow> fst (move_object w sb sk db dk) = Inl e
          \<and> calls (snd (move_object w sb sk db dk)) =
              calls w @ [CopyObject db dk sb sk, Close, DeleteObject sb sk, Close])"
  by (simp add: move_object_def copy_object_def delete_object_def Let_def)

theorem move_object_copy_then_delete_witness:
  "fst (move_object
          (world_of ((stub [])\<lparr>client_delete_object := (\<lambda>h b k. Some denied)\<rparr>) (Dir []))
          ''src'' ''a.txt'' ''dst'' ''b.txt'') = Inl denied
   \<and> calls (snd (move_object
          (world_of ((stub [])\<lparr>client_delete_object := (\<lambda>h b k. Some denied)\<rparr>) (Dir []))
          ''src'' ''a.txt'' ''dst'' ''b.txt''))
       = [CopyObject ''dst'' ''b.txt'' ''src'' ''a.txt'', Close, DeleteObject ''src'' ''a.txt'', Close]"
proof -
  let ?w = "world_of ((stub [])\<lparr>client_delete_object := (\<lambda>h b k. Some denied)\<rparr>) (Dir [])"
  have h: "\<not> startswith ''a.txt'' ''/'' \<and> \<not> startswith ''b.txt'' ''/''
      \<and> client_copy_object (client ?w) (calls ?w) ''dst'' ''b.txt'' ''src'' ''a.txt'' = None
      \<and> client_delete_object (client ?w)
          (calls ?w @ [CopyObject ''dst'' ''b.txt'' ''src'' ''a.txt'', Close]) ''src'' ''a.txt''
        = Some denied"
    by (simp add: world_of_def stub_def)
  have "calls ?w = []"
    by (simp add: world_of_def)
  then show ?thesis
    using mp [OF move_object_copy_then_delete [THEN conjunct2] h] by simp
qed

subsection \<open>The asynchronous variants\<close>

text \<open>
  Claim C9. Each asynchronous variant hands the synchronous operation of the same name,
  with its own arguments in their places, to \<^verbatim>\<open>run_in_executor\<close>; by what the
  specification says of that helper, the variant gives the result or the error of the
  synchronous operation on the same arguments, with the same effects.
\<close>

theorem async_same_as_sync:
  "alist_object_keys w b p ef = list_object_keys w b p ef
   \<and> acopy_object w sb sk db dk = copy_object w sb sk db dk
   \<and> adelete_object w b k = delete_object w b k
   \<and> amove_object w sb sk db dk = move_object w sb sk db dk
   \<and> adownload_object w b k lp = download_object w b k lp
   \<and> adownload_folder w b p lp = download_folder w b p lp
   \<and> aput_object w b k lp = put_object w b k lp
   \<and> aput_folder w b p lp = put_folder w b p lp"
  by (simp add: alist_object_keys_def acopy_object_def adelete_object_def amove_object_def
      adownload_object_def adownload_folder_def aput_object_def aput_folder_def
      run_in_executor_def split: prod.splits sum.splits)

theorem async_same_as_sync_witness:
  "fst (alist_object_keys (world_of (stub three_pages) (Dir [])) ''b'' ''a/'' True)
     = Inr [''a/1'', ''a/sub/2'']
   \<and> fst (adelete_object (world_of (stub three_pages) (Dir [])) ''b'' ''/a'')
     = Inl (ValueError ''object_key must not start with /'')"
  using async_same_as_sync [of "world_of (stub three_pages) (Dir [])" "''b''" "''a/''" True
      "''b''" "''a''" "''b''" "''a''" "''/a''" "Path ''x''"]
  by (simp add: list_object_keys_def delete_object_def world_of_def stub_def three_pages_def
      page_of_def endswith_def)

subsection \<open>Downloading one object\<close>

text \<open>
  Claim C10. In \<^verbatim>\<open>download_object\<close> the directory is made and the file written only
  after \<^verbatim>\<open>get_object\<close> has returned: when \<^verbatim>\<open>get_object\<close> raises, the filesystem after
  the call is the filesystem before it (no directory made, no file made or changed), and
  for a valid key the caller gets that error after exactly one \<^verbatim>\<open>get_object\<close> and the
  \<^verbatim>\<open>close\<close>.
\<close>

theorem download_object_get_failure:
  assumes "client_get_object (client w) (calls w) b k = Inl e"
  shows "fs_root (snd (download_object w b k lp)) = fs_root w
    \<and> cwd (snd (download_object w b k lp)) = cwd w
    \<and> (\<not> startswith k ''/'' \<longrightarrow>
         fst (download_object w b k lp) = Inl e
         \<and> calls (snd (download_object w b k lp)) = calls w @ [GetObject b k, Close])"
  using assms
  by (simp add: download_object_def store_response_def Let_def)

theorem download_object_get_failure_witness:
  "fs_root (snd (download_object
      (world_of ((stub [])\<lparr>client_get_object := (\<lambda>h b k. Inl denied)\<rparr>) (Dir [(''home'', Dir [])]))
      ''b'' ''k'' (Path ''new/dir/k.bin''))) = Dir [(''home'', Dir [])]
   \<and> fst (download_object
      (world_of ((stub [])\<lparr>client_get_object := (\<lambda>h b k. Inl denied)\<rparr>) (Dir [(''home'', Dir [])]))
      ''b'' ''k'' (Path ''new/dir/k.bin'')) = Inl denied"
proof -
  have h: "client_get_object
      (client (world_of ((stub [])\<lparr>client_get_object := (\<lambda>h b k. Inl denied)\<rparr>) (Dir [(''home'', Dir [])])))
      (calls (world_of ((stub [])\<lparr>client_get_object := (\<lambda>h b k. Inl denied)\<rparr>) (Dir [(''home'', Dir [])])))
      ''b'' ''k'' = Inl denied"
    by (simp add: world_of_def)
  show ?thesis
    using download_object_get_failure [OF h, of "Path ''new/dir/k.bin''"]
    by (simp add: world_of_def)
qed

subsection \<open>A local path without a directory component\<close>

lemma dirname_without_sep: "CHR ''/'' \<notin> set p \<Longrightarrow> dirname p = []"
proof -
  assume "CHR ''/'' \<notin> set p"
  then have "dropWhile (\<lambda>c. c \<noteq> CHR ''/'') (rev p) = []"
    by auto
  then show ?thesis by (simp add: dirname_def)
qed


text \<open>
  Claim C7 has \<^verbatim>\<open>download_object\<close> make the parent directories of \<^verbatim>\<open>local_path\<close> as
  needed, also when \<^verbatim>\<open>local_path\<close> is a bare file name, and write the object body to the
  file. For a bare file name the code does otherwise: \<^verbatim>\<open>os.path.dirname\<close> of a string
  without \<^verbatim>\<open>/\<close> is empty, \<^verbatim>\<open>os.makedirs("")\<close> raises \<^verbatim>\<open>FileNotFoundError\<close>, and the
  \<^verbatim>\<open>except\<close> block passes it on. So for every valid key and every local path whose
  string has no \<^verbatim>\<open>/\<close>, once \<^verbatim>\<open>get_object\<close> has answered, the call ends in
  \<^verbatim>\<open>FileNotFoundError\<close> with the filesystem as it was: nothing is written.
\<close>

theorem download_object_without_directory_component:
  assumes "CHR ''/'' \<notin> set (fspath lp)" and "\<not> startswith k ''/''"
    and "client_get_object (client w) (calls w) b k = Inr body"
  shows "fst (download_object w b k lp) = Inl (OSError FileNotFoundError)
    \<and> fs_root (snd (download_object w b k lp)) = fs_root w
    \<and> calls (snd (download_object w b k lp)) = calls w @ [GetObject b k, Close]"
  using assms
  by (simp add: download_object_def store_response_def os_makedirs_def dirname_without_sep Let_def)

theorem download_object_without_directory_component_witness:
  "CHR ''/'' \<notin> set (fspath (Path ''out.bin'')) \<and> \<not> startswith ''k'' ''/''
   \<and> fst (download_object (world_of (stub []) (Dir [(''home'', Dir [])])) ''bucket'' ''k''
            (Path ''out.bin'')) = Inl (OSError FileNotFoundError)
   \<and> fs_root (snd (download_object (world_of (stub []) (Dir [(''home'', Dir [])])) ''bucket'' ''k''
            (Path ''out.bin''))) = Dir [(''home'', Dir [])]
   \<and> calls (snd (download_object (world_of (stub []) (Dir [(''home'', Dir [])])) ''bucket'' ''k''
            (Path ''out.bin''))) = [GetObject ''bucket'' ''k'', Close]"
proof -
  let ?w = "world_of (stub []) (Dir [(''home'', Dir [])])"
  have h1: "CHR ''/'' \<notin> set (fspath (Path ''out.bin''))"
    by (simp add: fspath_def Path_def)
  have h2: "\<not> startswith ''k'' ''/''" by simp
  have h3: "client_get_object (client ?w) (calls ?w) ''bucket'' ''k''
      = Inr \<lparr>chunks = [''<'', ''k'', ''>''], broken = None\<rparr>"
    by (simp add: world_of_def stub_def)
  show ?thesis
    using h1 download_object_without_directory_component [OF h1 h2 h3]
    by (simp add: world_of_def)
qed

subsection \<open>Relative keys\<close>

lemma split_sep_not_Nil [simp]: "split_sep s \<noteq> []"
  by (induction s) (auto split: list.splits)

lemma split_sep_append_sep:
  "split_sep (xs @ CHR ''/'' # ys) = split_sep xs @ split_sep ys"
  by (induction xs) (auto split: list.splits)

lemma startswith_iff: "startswith s p \<longleftrightarrow> (\<exists>r. s = p @ r)"
  by (induction s p rule: startswith.induct) auto

lemma endswith_sep_iff: "endswith s ''/'' \<longleftrightarrow> (\<exists>t. s = t @ ''/'')"
proof -
  have "endswith s ''/'' \<longleftrightarrow> (\<exists>r. rev s = CHR ''/'' # r)"
    by (simp add: endswith_def startswith_iff)
  also have "\<dots> \<longleftrightarrow> (\<exists>t. s = t @ ''/'')"
    by (metis rev.simps(2) rev_singleton_conv rev_append rev_swap)
  finally show ?thesis .
qed

lemma leading_append [simp]: "leading xs (xs @ ys)"
  by (induction xs) simp_all

lemma leading_iff: "leading xs ys \<longleftrightarrow> (\<exists>zs. ys = xs @ zs)"
  by (induction xs ys rule: leading.induct) auto

lemma relative_to_error: "relative_to x y = Inl e \<Longrightarrow> e = ValueError ''is not in the subpath of''"
  by (auto simp: relative_to_def split: if_splits)

lemma relative_to_folder_prefix:
  assumes "\<not> startswith prefix ''/''" and "endswith prefix ''/''" and "startswith key prefix"
  shows "relative_to (Path key) (Path prefix) =
     Inr \<lparr>is_absolute = False, tail = tail (Path (drop (length prefix) key))\<rparr>"
proof -
  from assms(2) obtain t where t: "prefix = t @ ''/''"
    by (auto simp: endswith_sep_iff)
  from assms(3) obtain r where r: "key = prefix @ r"
    by (auto simp: startswith_iff)
  from assms(1) t have "t \<noteq> []" by auto
  then obtain c cs where c: "t = c # cs" by (cases t) auto
  with assms(1) t have "c \<noteq> CHR ''/''" by auto
  have abs: "\<not> startswith key ''/''"
    using r t c \<open>c \<noteq> CHR ''/''\<close> by simp
  have sp: "split_sep prefix = split_sep t @ [[]]"
    using t split_sep_append_sep [of t "[]"] by simp
  have sk: "split_sep key = split_sep t @ split_sep r"
    using r t split_sep_append_sep [of t r] by simp
  show ?thesis
    using abs assms(1) sp sk r
    by (simp add: relative_to_def Path_def)
qed

lemma download_keys_append:
  "download_keys w b p lp (xs @ ys) =
     (case download_keys w b p lp xs of
        (Inl e, w1) \<Rightarrow> (Inl e, w1)
      | (Inr u, w1) \<Rightarrow> download_keys w1 b p lp ys)"
  by (induction xs arbitrary: w) (auto split: sum.splits prod.splits)


text \<open>
  Claim C6, as amended. \<^verbatim>\<open>download_folder\<close> computes the destination of a listed key
  with \<^verbatim>\<open>Path(object_key).relative_to(prefix)\<close>, which compares path components and not
  characters. For a prefix that does not start with \<^verbatim>\<open>/\<close>: the computation succeeds
  exactly when the key does not start with \<^verbatim>\<open>/\<close> and the components of the prefix are
  the first components of the key; for a prefix that ends in \<^verbatim>\<open>/\<close> it succeeds on every
  key that begins with the prefix, and gives the path of the rest of the key; and where it
  fails on a key that is no folder marker, the operation stops there with that
  \<^verbatim>\<open>ValueError\<close>, after the downloads of the keys before it and without asking for the
  object.
\<close>

theorem relative_key_is_by_components:
  assumes "\<not> startswith prefix ''/''"
  shows "((\<exists>r. relative_to (Path key) (Path prefix) = Inr r) \<longleftrightarrow>
            \<not> startswith key ''/'' \<and> leading (tail (Path prefix)) (tail (Path key)))
    \<and> (endswith prefix ''/'' \<and> startswith key prefix \<longrightarrow>
          relative_to (Path key) (Path prefix) =
            Inr \<lparr>is_absolute = False, tail = tail (Path (drop (length prefix) key))\<rparr>)
    \<and> (\<not> endswith key ''/'' \<and> relative_to (Path key) (Path prefix) = Inl e
        \<and> download_keys w b prefix lp before = (Inr (), w1) \<longrightarrow>
          e = ValueError ''is not in the subpath of''
          \<and> download_keys w b prefix lp (before @ key # rest) = (Inl e, w1))"
proof -
  have a: "(\<exists>r. relative_to (Path key) (Path prefix) = Inr r) \<longleftrightarrow>
            \<not> startswith key ''/'' \<and> leading (tail (Path prefix)) (tail (Path key))"
    using assms by (simp add: relative_to_def Path_def)
  have b: "relative_to (Path key) (Path prefix) =
            Inr \<lparr>is_absolute = False, tail = tail (Path (drop (length prefix) key))\<rparr>"
    if "endswith prefix ''/''" "startswith key prefix"
    using assms that by (rule relative_to_folder_prefix)
  have c: "e = ValueError ''is not in the subpath of''
          \<and> download_keys w b prefix lp (before @ key # rest) = (Inl e, w1)"
    if "\<not> endswith key ''/''" "relative_to (Path key) (Path prefix) = Inl e"
      "download_keys w b prefix lp before = (Inr (), w1)"
    using that relative_to_error [OF that(2)] by (simp add: download_keys_append)
  from a b c show ?thesis by blast
qed


theorem relative_key_is_by_components_witness:
  "\<not> startswith ''data/'' ''/'' \<and> endswith ''data/'' ''/'' \<and> startswith ''data/sub/b.txt'' ''data/''
   \<and> relative_to (Path ''data/sub/b.txt'') (Path ''data/'') =
       Inr \<lparr>is_absolute = False, tail = [''sub'', ''b.txt'']\<rparr>
   \<and> \<not> startswith ''dat'' ''/'' \<and> \<not> endswith ''data/a.txt'' ''/''
   \<and> download_keys (folder_world []) ''b'' ''dat'' (Path ''out'') [''data/'', ''data/a.txt'', ''data/b.txt'']
       = (Inl (ValueError ''is not in the subpath of''), folder_world [])"
proof -
  have h: "\<not> startswith ''data/'' ''/''" by simp
  have g: "endswith ''data/'' ''/'' \<and> startswith ''data/sub/b.txt'' ''data/''"
    by (simp add: endswith_def)
  have h': "\<not> startswith ''dat'' ''/''" by simp
  have g': "\<not> endswith ''data/a.txt'' ''/''
      \<and> relative_to (Path ''data/a.txt'') (Path ''dat'') = Inl (ValueError ''is not in the subpath of'')
      \<and> download_keys (folder_world []) ''b'' ''dat'' (Path ''out'') [''data/''] = (Inr (), folder_world [])"
    by (simp add: endswith_def relative_to_def Path_def)
  show ?thesis
    using h g h' g'
      mp [OF relative_key_is_by_components [OF h, THEN conjunct2, THEN conjunct1] g]
      mp [OF relative_key_is_by_components [OF h', THEN conjunct2, THEN conjunct2] g',
          of "[''data/b.txt'']"]
    by (simp add: Path_def)
qed

text \<open>
  Claim C6 as it was stated fails both ways. The key \<^verbatim>\<open>data/a.txt\<close> begins with the
  prefix \<^verbatim>\<open>dat\<close>, a listing by that prefix returns it, and its relative path is not
  computed: \<^verbatim>\<open>download_folder\<close> ends in \<^verbatim>\<open>ValueError\<close>. And a key that does not begin
  with the prefix, as \<^verbatim>\<open>data/a.txt\<close> does not with \<^verbatim>\<open>data//\<close>, can have its relative path
  computed.
\<close>

theorem key_with_prefix_not_relative_counterexample:
  "startswith ''data/a.txt'' ''dat''
   \<and> relative_to (Path ''data/a.txt'') (Path ''dat'') = Inl (ValueError ''is not in the subpath of'')
   \<and> fst (download_folder (folder_world [''data/a.txt'']) ''b'' ''dat'' (Path ''out''))
       = Inl (ValueError ''is not in the subpath of'')
   \<and> \<not> startswith ''data/a.txt'' ''data//''
   \<and> relative_to (Path ''data/a.txt'') (Path ''data//'') = Inr \<lparr>is_absolute = False, tail = [''a.txt'']\<rparr>"
  by (simp add: relative_to_def Path_def download_folder_def list_object_keys_def folder_world_def
      world_of_def stub_def page_of_def endswith_def Let_def)

lemma entry_at_split:
  "entry_at es c cs = (case entry_at es c [] of None \<Rightarrow> None | Some m \<Rightarrow> node_at m cs)"
  by (induction es) auto

lemma node_at_Cons:
  "node_at d (c # cs) = (case node_at d [c] of None \<Rightarrow> None | Some m \<Rightarrow> node_at m cs)"
  by (cases d) (simp_all add: entry_at_split [where cs = cs])

lemma node_at_append:
  "node_at d (xs @ ys) = (case node_at d xs of None \<Rightarrow> None | Some m \<Rightarrow> node_at m ys)"
proof (induction xs arbitrary: d)
  case Nil
  then show ?case by simp
next
  case (Cons c xs)
  show ?case
  proof (cases "node_at d [c]")
    case None
    then show ?thesis
      using node_at_Cons [of d c "xs @ ys"] node_at_Cons [of d c xs] by simp
  next
    case (Some m)
    then show ?thesis
      using node_at_Cons [of d c "xs @ ys"] node_at_Cons [of d c xs] Cons.IH [of m] by simp
  qed
qed

lemma node_at_below:
  "node_at d (c # cs) = Some n \<Longrightarrow> \<exists>es. d = Dir es"
  by (cases d) auto

lemma node_at_ancestor:
  assumes "node_at r (xs @ ys) = Some n" and "ys \<noteq> []"
  shows "\<exists>es. node_at r xs = Some (Dir es)"
proof -
  from assms(1) obtain m where m: "node_at r xs = Some m" and n: "node_at m ys = Some n"
    by (auto simp: node_at_append split: option.splits)
  from assms(2) obtain c cs where "ys = c # cs" by (cases ys) auto
  with n node_at_below obtain es where "m = Dir es" by blast
  with m show ?thesis by simp
qed

lemma node_at_butlast:
  assumes "node_at r loc = Some n"
  shows "\<exists>es. node_at r (butlast loc) = Some (Dir es) \<or> loc = []"
proof (cases "loc = []")
  case True
  then show ?thesis by simp
next
  case False
  then have "loc = butlast loc @ [last loc]" by simp
  with assms node_at_ancestor [of r "butlast loc" "[last loc]" n] show ?thesis by auto
qed

















subsection \<open>What rglob yields\<close>








subsection \<open>Uploading a folder\<close>

lemma resolve_calls [simp]: "resolve (w\<lparr>calls := c\<rparr>) follow n = resolve w follow n"
  by (simp add: resolve_def start_def)

lemma is_file_calls [simp]: "is_file (w\<lparr>calls := c\<rparr>) p = is_file w p"
  by (simp add: is_file_def split: sum.splits)

lemma read_file_calls [simp]: "read_file (w\<lparr>calls := c\<rparr>) n = read_file w n"
  by (simp add: read_file_def split: sum.splits)

lemma file_data_calls [simp]: "file_data (w\<lparr>calls := c\<rparr>) p = file_data w p"
  by (simp add: file_data_def)












end
